theory Spec2Isabelle
  imports Main "HOL-Library.Word"
begin

section \<open>The EmulatorJS player (Player.vue): data model\<close>

text \<open>
  The embedding follows \<^verbatim>\<open>frontend/src/views/Player/EmulatorJS/Player.vue\<close> and the
  cheat service \<^verbatim>\<open>services/api/cheat\<close>. A byte blob (\<^verbatim>\<open>Uint8Array\<close>) is a list of
  8-bit words. JavaScript's \<^verbatim>\<open>null\<close>/\<^verbatim>\<open>undefined\<close> is \<open>None\<close>.
\<close>

type_synonym bytes = "8 word list"

text \<open>
  \<^verbatim>\<open>interface CheatCode { id; name; code; description; type; romId }\<close>. The fields
  \<^verbatim>\<open>id\<close> and \<^verbatim>\<open>type\<close> are renamed, the names being taken in HOL.
\<close>

record CheatCode =
  cheat_id :: string
  name :: string
  code :: string
  description :: string
  cheat_type :: string
  romId :: string

text \<open>
  \<^verbatim>\<open>interface EmulatorCheat { desc; code; checked }\<close>, local to
  \<^verbatim>\<open>updateEmulatorCheats\<close>; its \<^verbatim>\<open>code\<close> field is named \<open>ecode\<close> here.
\<close>

record EmulatorCheat =
  desc :: string
  ecode :: string
  checked :: bool

text \<open>
  What the component does to its surroundings, in the order it does it: calls of the
  runtime's native methods, notifications, console output, and the calls of the helpers
  of \<^verbatim>\<open>./utils\<close> and of the stores.
\<close>

datatype effect =
    ResetCheat
  | SetCheat nat bool string
  | UpdateCheatUI
  | Notify string nat string string
  | ConsoleLog string
  | ConsoleError string
  | SelectFile
  | LoadEmulatorJSSave bytes
  | LoadEmulatorJSState bytes
  | SaveSave bytes bytes
  | SaveState bytes bytes
  | StoragePut string bytes
  | RomsStoreUpdate

text \<open>What a \<^verbatim>\<open>throw\<close> carries: a \<^verbatim>\<open>TypeError\<close> of the language (a property read
  on \<^verbatim>\<open>undefined\<close>, a call of something that is no function), a rejected backend
  request, or an error raised inside a native method of the runtime.\<close>

datatype exn = TypeError | RequestFailed | RuntimeError

text \<open>The outcome of an awaited backend request.\<close>

datatype 'a outcome = Rejected | Resolved 'a

text \<open>
  A method slot of the runtime: absent (\<^verbatim>\<open>typeof m !== "function"\<close>), a function
  that returns, or a function that throws.
\<close>

datatype slot = Missing | Returns | Throws

record gameManager =
  resetCheat :: slot
  setCheat :: slot

record emulator =
  gameManager :: "gameManager option"
  updateCheatUI :: slot
  getBaseFileName :: string

text \<open>The five global hooks the script assigns on \<^verbatim>\<open>window\<close>.\<close>

datatype hook = OnGameStart | OnSaveState | OnLoadState | OnSaveSave | OnLoadSave

text \<open>The handlers a component passes to the event emitter; \<open>Foreign\<close> are those of
  other components on the same emitter.\<close>

datatype handler = LoadSaveHandler | LoadStateHandler | Foreign nat

text \<open>
  The state of one mounted player: the globals on \<^verbatim>\<open>window\<close> it reads and writes, its
  refs, the store flags, the emitter's registrations (\<open>None\<close> when no emitter was
  provided: the code writes \<^verbatim>\<open>emitter?.on\<close>), and the browser's timer table restricted
  to the cheat-apply timeouts of this component (\<open>timers\<close>, with the next id
  \<^verbatim>\<open>window.setTimeout\<close> hands out). \<open>starting\<close> counts the continuations of
  \<^verbatim>\<open>EJS_onGameStart\<close> that have been started and have not yet reached the scheduling
  step. \<open>trace\<close> is the list of effects so far.
\<close>

record session =
  EJS_cheats :: "(string \<times> string) list"
  EJS_emulator :: "emulator option"
  hooks :: "hook set"
  emitter :: "(string \<times> handler) list option"
  saveRef :: "nat option"
  cheatUpdateTimeout :: "nat option"
  timers :: "nat set"
  next_timer :: nat
  starting :: nat
  playing :: bool
  fullScreen :: bool
  trace :: "effect list"

section \<open>Runtime Bootstrap: the effective core\<close>

text \<open>
  \<^verbatim>\<open>window.EJS_core = supportedCores.find((core) => core === props.core) ?? supportedCores[0]\<close>.
  \<^verbatim>\<open>supportedCores\<close> is the result of \<^verbatim>\<open>getSupportedEJSCores\<close> (of \<^verbatim>\<open>@/utils\<close>), taken
  as a parameter; \<^verbatim>\<open>props.core\<close> is a string or null. \<^verbatim>\<open>find\<close> yields \<^verbatim>\<open>undefined\<close>
  when nothing matches, and so does index 0 of an empty array.
\<close>

definition EJS_core :: "string list \<Rightarrow> string option \<Rightarrow> string option" where
  "EJS_core supportedCores core =
     (case List.find (\<lambda>c. Some c = core) supportedCores of
        Some c \<Rightarrow> Some c
      | None \<Rightarrow> (case supportedCores of [] \<Rightarrow> None | d # _ \<Rightarrow> Some d))"

section \<open>Cheat Source Adapter\<close>

text \<open>
  \<^verbatim>\<open>if (!cheatCodes || cheatCodes.length === 0) return [];
  return cheatCodes.map((code) => [code.name, code.code]);\<close>
  The parameter is typed \<^verbatim>\<open>CheatCode[]\<close>, a list. Between the test and the \<^verbatim>\<open>map\<close> the
  function prints one console line; that line is emitted where the function is called, in
  \<open>loadCheatCodes\<close> below, and this definition is the value returned.
\<close>

definition formatCheatCodesForEmulatorJS :: "CheatCode list \<Rightarrow> (string \<times> string) list" where
  "formatCheatCodesForEmulatorJS cheatCodes =
     (if length cheatCodes = 0 then []
      else map (\<lambda>c. (name c, code c)) cheatCodes)"

section \<open>Effects and exceptions\<close>

text \<open>
  A piece of code that reads the session, emits effects and either completes or throws is
  a pair: the result (\<open>Inl\<close> the exception) and the effects emitted up to there.
  \<open>then_do a b\<close> is \<^verbatim>\<open>a; b\<close>; \<open>on_error a h\<close> is \<^verbatim>\<open>try { a } catch { h }\<close>.
\<close>

type_synonym 'a action = "(exn + 'a) \<times> effect list"

definition then_do :: "unit action \<Rightarrow> 'a action \<Rightarrow> 'a action" where
  "then_do a b = (case a of (Inl e, t) \<Rightarrow> (Inl e, t) | (Inr _, t) \<Rightarrow> (fst b, t @ snd b))"

definition on_error :: "'a action \<Rightarrow> 'a action \<Rightarrow> 'a action" where
  "on_error a h = (case a of (Inl e, t) \<Rightarrow> (fst h, t @ snd h) | (Inr v, t) \<Rightarrow> (Inr v, t))"

definition say :: "effect \<Rightarrow> unit action" where
  "say e = (Inr (), [e])"

text \<open>
  Calling a method slot of the runtime: calling what is no function is a
  \<^verbatim>\<open>TypeError\<close> and nothing reaches the runtime; a function that throws has been
  called.
\<close>

definition call :: "slot \<Rightarrow> effect \<Rightarrow> unit action" where
  "call m e = (case m of Missing \<Rightarrow> (Inl TypeError, [])
                       | Returns \<Rightarrow> (Inr (), [e])
                       | Throws \<Rightarrow> (Inl RuntimeError, [e]))"

text \<open>
  \<^verbatim>\<open>function displayMessage(message, { duration, className = "msg-info", icon = "" })\<close>:
  it starts with \<^verbatim>\<open>window.EJS_emulator.displayMessage(message, duration)\<close>, a
  \<^verbatim>\<open>TypeError\<close> while \<^verbatim>\<open>window.EJS_emulator\<close> is undefined. The class marking of the
  message element is part of the notification.
\<close>

definition displayMessage :: "string \<Rightarrow> nat \<Rightarrow> string \<Rightarrow> string \<Rightarrow> session \<Rightarrow> unit action" where
  "displayMessage message duration className icon s =
     (case EJS_emulator s of
        None \<Rightarrow> (Inl TypeError, [])
      | Some _ \<Rightarrow> (Inr (), [Notify message duration className icon]))"

section \<open>Fetching the cheat list\<close>

text \<open>
  \<^verbatim>\<open>getCheatCodes\<close> of the cheat service: \<^verbatim>\<open>try { response = await api.get(...);
  return response.data } catch (error) { console.error(...); throw error }\<close>. The argument
  is the outcome of the request, \<open>None\<close> a null or undefined body. The console line is
  recorded by its fixed text, without the ROM id the source puts into it.
\<close>

definition getCheatCodes :: "CheatCode list option outcome \<Rightarrow> CheatCode list option action" where
  "getCheatCodes response =
     (case response of
        Resolved data \<Rightarrow> (Inr data, [])
      | Rejected \<Rightarrow> (Inl RequestFailed, [ConsoleError ''Failed to get cheat codes for ROM'']))"

text \<open>
  \<^verbatim>\<open>fetchCheatCodes\<close>: \<^verbatim>\<open>return cheatCodes || []\<close> on success; the catch block logs,
  calls \<^verbatim>\<open>displayMessage\<close> and returns \<^verbatim>\<open>[]\<close>.
\<close>

definition fetchCheatCodes :: "CheatCode list option outcome \<Rightarrow> session \<Rightarrow> CheatCode list action" where
  "fetchCheatCodes response s =
     (case getCheatCodes response of
        (Inr cheatCodes, t) \<Rightarrow>
          (Inr (case cheatCodes of None \<Rightarrow> [] | Some cs \<Rightarrow> cs), t @ [ConsoleLog ''Fetched cheat codes:''])
      | (Inl e, t) \<Rightarrow>
          (case then_do (say (ConsoleError ''Error fetching cheat codes:''))
                  (displayMessage ''Failed to fetch cheat codes from server'' 4000 ''msg-error''
                     ''mdi-alert-circle-outline'' s) of
             (Inl e', t') \<Rightarrow> (Inl e', t @ t')
           | (Inr _, t') \<Rightarrow> (Inr [], t @ t')))"

text \<open>
  \<^verbatim>\<open>loadCheatCodes\<close>: the buffer is cleared, the list fetched, and a non-empty list
  formatted into the buffer (with the console line of the formatting function and the
  one that follows it); the catch block logs and calls \<^verbatim>\<open>displayMessage\<close>.
\<close>

definition loadCheatCodes :: "CheatCode list option outcome \<Rightarrow> session \<Rightarrow> (exn + unit) \<times> session" where
  "loadCheatCodes response s =
     (let s1 = s\<lparr>EJS_cheats := []\<rparr> in
      case fetchCheatCodes response s1 of
        (Inr cheatCodes, t) \<Rightarrow>
          (if length cheatCodes > 0
           then (Inr (), s1\<lparr>EJS_cheats := formatCheatCodesForEmulatorJS cheatCodes,
                             trace := trace s1 @ t @
                               [ConsoleLog ''Formatting cheat codes for EmulatorJS:'',
                                ConsoleLog ''Cheat codes loaded:'']\<rparr>)
           else (Inr (), s1\<lparr>trace := trace s1 @ t\<rparr>))
      | (Inl e, t) \<Rightarrow>
          (case then_do (say (ConsoleError ''Error loading cheat codes:''))
                  (displayMessage ''Failed to load cheat codes'' 4000 ''msg-error''
                     ''mdi-alert-circle-outline'' s1) of
             (r, t') \<Rightarrow> (r, s1\<lparr>trace := trace s1 @ t @ t'\<rparr>)))"

section \<open>Applying the cheat buffer to the runtime\<close>

text \<open>\<^verbatim>\<open>cheats.forEach((cheat, index) => gameManager.setCheat(index, cheat.checked, cheat.code))\<close>\<close>

fun applyCheats :: "slot \<Rightarrow> nat \<Rightarrow> EmulatorCheat list \<Rightarrow> unit action" where
  "applyCheats m index [] = (Inr (), [])"
| "applyCheats m index (cheat # rest) =
     then_do (call m (SetCheat index (checked cheat) (ecode cheat))) (applyCheats m (Suc index) rest)"

text \<open>The body of the inner \<^verbatim>\<open>try\<close> of \<^verbatim>\<open>updateEmulatorCheats\<close>.\<close>

definition cheat_update :: "emulator \<Rightarrow> gameManager \<Rightarrow> session \<Rightarrow> unit action" where
  "cheat_update em gm s =
     (let cheats = (if length (EJS_cheats s) > 0
                    then map (\<lambda>(d, c). \<lparr>desc = d, ecode = c, checked = False\<rparr>) (EJS_cheats s)
                    else [])
      in if resetCheat gm = Missing \<or> setCheat gm = Missing
         then say (ConsoleLog ''Emulator missing required cheat methods, skipping cheat update'')
         else then_do (call (resetCheat gm) ResetCheat)
               (then_do (applyCheats (setCheat gm) 0 cheats)
                 (if updateCheatUI em \<noteq> Missing
                  then then_do (call (updateCheatUI em) UpdateCheatUI)
                         (say (ConsoleLog ''Cheat UI updated successfully''))
                  else (Inr (), []))))"

text \<open>
  \<^verbatim>\<open>updateEmulatorCheats\<close>: nothing but a log line while the runtime or its game manager
  is absent; otherwise a first \<^verbatim>\<open>resetCheat()\<close>, then the inner \<^verbatim>\<open>try\<close> with its own
  catch block, all inside the outer \<^verbatim>\<open>try\<close>. The native calls leave
  \<^verbatim>\<open>window.EJS_emulator\<close> in place, so the second presence test passes.
\<close>

definition updateEmulatorCheats :: "session \<Rightarrow> unit action" where
  "updateEmulatorCheats s =
     (case EJS_emulator s of
        None \<Rightarrow> say (ConsoleLog ''Cannot update emulator cheats: emulator not initialized'')
      | Some em \<Rightarrow>
          (case gameManager em of
             None \<Rightarrow> say (ConsoleLog ''Cannot update emulator cheats: emulator not initialized'')
           | Some gm \<Rightarrow>
               on_error
                 (then_do (say (ConsoleLog ''Updating emulator cheats directly''))
                   (then_do (call (resetCheat gm) ResetCheat)
                     (on_error (cheat_update em gm s)
                        (then_do (say (ConsoleError ''Error during cheat update:''))
                           (displayMessage ''Failed to apply cheat codes'' 4000 ''msg-error''
                              ''mdi-alert-circle-outline'' s)))))
                 (then_do (say (ConsoleError ''Error updating emulator cheats:''))
                    (displayMessage ''Failed to update emulator cheats'' 4000 ''msg-error''
                       ''mdi-alert-circle-outline'' s))))"

text \<open>The calls of the runtime's native cheat-table methods among a list of effects.\<close>

fun is_cheat_table_call :: "effect \<Rightarrow> bool" where
  "is_cheat_table_call ResetCheat = True"
| "is_cheat_table_call (SetCheat _ _ _) = True"
| "is_cheat_table_call _ = False"

definition cheat_table_calls :: "effect list \<Rightarrow> effect list" where
  "cheat_table_calls t = filter is_cheat_table_call t"

fun is_notification :: "effect \<Rightarrow> bool" where
  "is_notification (Notify _ _ _ _) = True"
| "is_notification _ = False"

section \<open>Persistence Bridge\<close>

text \<open>
  \<^verbatim>\<open>loadSave\<close>: \<^verbatim>\<open>saveRef.value = save\<close>, then the blob is requested with
  \<^verbatim>\<open>responseType: "arraybuffer"\<close>. \<open>data\<close> is \<open>None\<close> for a null or undefined body and
  \<open>Some bs\<close> for an \<^verbatim>\<open>ArrayBuffer\<close>; \<^verbatim>\<open>if (data)\<close> is true of every object, also of a
  buffer of length zero. The request has no catch block. \<open>picked\<close> is the content of
  the file the user selects when asked.

  The helpers \<^verbatim>\<open>loadEmulatorJSSave\<close> and \<^verbatim>\<open>loadEmulatorJSState\<close> are imported from
  \<^verbatim>\<open>./utils\<close>; they hand the bytes to the runtime's native load-save and load-state
  methods, and a call of one is the effect \<open>LoadEmulatorJSSave\<close>, \<open>LoadEmulatorJSState\<close>
  with the bytes it was given.
\<close>

definition loadSave :: "nat \<Rightarrow> bytes option outcome \<Rightarrow> bytes \<Rightarrow> session \<Rightarrow> (exn + unit) \<times> session" where
  "loadSave save response picked s =
     (let s1 = s\<lparr>saveRef := Some save\<rparr> in
      case response of
        Rejected \<Rightarrow> (Inl RequestFailed, s1)
      | Resolved data \<Rightarrow>
          (case data of
             Some d \<Rightarrow>
               (case then_do (say (LoadEmulatorJSSave d))
                       (displayMessage ''Save loaded from server'' 3000 ''msg-info''
                          ''mdi-cloud-download-outline'' s1) of
                  (r, t) \<Rightarrow> (r, s1\<lparr>trace := trace s1 @ t\<rparr>))
           | None \<Rightarrow>
               (case EJS_emulator s1 of
                  None \<Rightarrow> (Inl TypeError, s1)
                | Some _ \<Rightarrow> (Inr (), s1\<lparr>trace := trace s1 @ [SelectFile, LoadEmulatorJSSave picked]\<rparr>))))"

definition loadState :: "bytes option outcome \<Rightarrow> bytes \<Rightarrow> session \<Rightarrow> (exn + unit) \<times> session" where
  "loadState response picked s =
     (case response of
        Rejected \<Rightarrow> (Inl RequestFailed, s)
      | Resolved data \<Rightarrow>
          (case data of
             Some d \<Rightarrow>
               (case then_do (say (LoadEmulatorJSState d))
                       (displayMessage ''State loaded from server'' 3000 ''msg-info''
                          ''mdi-cloud-download-outline'' s) of
                  (r, t) \<Rightarrow> (r, s\<lparr>trace := trace s @ t\<rparr>))
           | None \<Rightarrow>
               (case EJS_emulator s of
                  None \<Rightarrow> (Inl TypeError, s)
                | Some _ \<Rightarrow> (Inr (), s\<lparr>trace := trace s @ [SelectFile, LoadEmulatorJSState picked]\<rparr>))))"

text \<open>
  The two save-requested hooks. The helpers \<^verbatim>\<open>saveSave\<close> and \<^verbatim>\<open>saveState\<close> are imported
  from \<^verbatim>\<open>./utils\<close>; they upload the blob and its screenshot. A call of one is the effect
  \<open>SaveSave\<close>, \<open>SaveState\<close>, and what it resolves to is the parameter \<open>uploaded\<close>: the
  stored record, or null, which the hooks report as a failed sync.
\<close>

definition EJS_onSaveSave :: "bytes \<Rightarrow> bytes \<Rightarrow> nat option \<Rightarrow> session \<Rightarrow> (exn + unit) \<times> session" where
  "EJS_onSaveSave saveFile screenshotFile uploaded s =
     (case then_do (say (SaveSave saveFile screenshotFile))
             (then_do (say RomsStoreUpdate)
               (case uploaded of
                  Some _ \<Rightarrow> displayMessage ''Save synced with server'' 4000 ''msg-info'' ''mdi-cloud-sync'' s
                | None \<Rightarrow> displayMessage ''Error syncing save with server'' 4000 ''msg-error''
                            ''mdi-sync-alert'' s)) of
        (r, t) \<Rightarrow> (r, s\<lparr>trace := trace s @ t\<rparr>))"

definition EJS_onSaveState :: "bytes \<Rightarrow> bytes \<Rightarrow> nat option \<Rightarrow> session \<Rightarrow> (exn + unit) \<times> session" where
  "EJS_onSaveState stateFile screenshotFile uploaded s =
     (case then_do (say (SaveState stateFile screenshotFile))
             (then_do
               (case EJS_emulator s of
                  None \<Rightarrow> (Inl TypeError, [])
                | Some em \<Rightarrow> say (StoragePut (getBaseFileName em @ ''.state'') stateFile))
               (then_do (say RomsStoreUpdate)
                 (case uploaded of
                    Some _ \<Rightarrow> displayMessage ''State synced with server'' 4000 ''msg-info'' ''mdi-cloud-sync'' s
                  | None \<Rightarrow> displayMessage ''Error syncing state with server'' 4000 ''msg-error''
                              ''mdi-sync-alert'' s))) of
        (r, t) \<Rightarrow> (r, s\<lparr>trace := trace s @ t\<rparr>))"

fun is_storage_put :: "effect \<Rightarrow> bool" where
  "is_storage_put (StoragePut _ _) = True"
| "is_storage_put _ = False"

section \<open>Session Lifecycle Controller\<close>

text \<open>
  The state after the script's setup code: the cheat buffer is empty, the five hooks are
  assigned, \<^verbatim>\<open>cheatUpdateTimeout = ref(null)\<close>, \<^verbatim>\<open>saveRef = ref(props.save)\<close>. The
  runtime global, the emitter, the browser's next timer id and the store flags are what
  the component finds.
\<close>

definition script_setup :: "emulator option \<Rightarrow> (string \<times> handler) list option \<Rightarrow> nat option \<Rightarrow> nat \<Rightarrow> bool \<Rightarrow> bool \<Rightarrow> session" where
  "script_setup em emi props_save tid pl fs =
     \<lparr>EJS_cheats = [], EJS_emulator = em,
      hooks = {OnGameStart, OnSaveState, OnLoadState, OnSaveSave, OnLoadSave},
      emitter = emi, saveRef = props_save, cheatUpdateTimeout = None, timers = {},
      next_timer = tid, starting = 0, playing = pl, fullScreen = fs, trace = []\<rparr>"

text \<open>
  \<^verbatim>\<open>onMounted\<close>, after the writes to local storage: \<^verbatim>\<open>await loadCheatCodes()\<close>, then
  the two registrations on the emitter, which appends a handler to those of its event.
\<close>

definition onMounted :: "CheatCode list option outcome \<Rightarrow> session \<Rightarrow> (exn + unit) \<times> session" where
  "onMounted response s =
     (case loadCheatCodes response s of
        (Inl e, s') \<Rightarrow> (Inl e, s')
      | (Inr _, s') \<Rightarrow>
          (Inr (), s'\<lparr>emitter := map_option
                          (\<lambda>hs. hs @ [(''saveSelected'', LoadSaveHandler), (''stateSelected'', LoadStateHandler)])
                          (emitter s')\<rparr>))"

text \<open>
  \<^verbatim>\<open>onBeforeUnmount\<close>: \<^verbatim>\<open>clearTimeout\<close> takes the timer out of the browser's table;
  the emitter's \<^verbatim>\<open>off\<close> removes the first registration of that handler for that event
  and does nothing when there is none.
\<close>

definition onBeforeUnmount :: "session \<Rightarrow> session" where
  "onBeforeUnmount s =
     (let s1 = (case cheatUpdateTimeout s of
                  Some t \<Rightarrow> s\<lparr>timers := timers s - {t}, cheatUpdateTimeout := None\<rparr>
                | None \<Rightarrow> s)
      in s1\<lparr>emitter := map_option
                 (\<lambda>hs. remove1 (''stateSelected'', LoadStateHandler)
                         (remove1 (''saveSelected'', LoadSaveHandler) hs))
                 (emitter s1),
            fullScreen := False, playing := False\<rparr>)"

text \<open>
  The end of the continuation of \<^verbatim>\<open>EJS_onGameStart\<close>: \<^verbatim>\<open>if (cheatUpdateTimeout.value
  !== null) clearTimeout(cheatUpdateTimeout.value)\<close>, then \<^verbatim>\<open>cheatUpdateTimeout.value =
  window.setTimeout(..., 1000)\<close>.
\<close>

definition schedule :: "session \<Rightarrow> session" where
  "schedule s =
     (let s1 = (case cheatUpdateTimeout s of
                  Some t \<Rightarrow> s\<lparr>timers := timers s - {t}\<rparr>
                | None \<Rightarrow> s)
      in s1\<lparr>timers := insert (next_timer s1) (timers s1),
            next_timer := Suc (next_timer s1),
            cheatUpdateTimeout := Some (next_timer s1)\<rparr>)"

text \<open>
  The timeout's callback: \<^verbatim>\<open>updateEmulatorCheats(); cheatUpdateTimeout.value = null\<close>.
  A timer that fires leaves the browser's table.
\<close>

definition fire :: "nat \<Rightarrow> session \<Rightarrow> session" where
  "fire t s =
     (if t \<in> timers s
      then (case updateEmulatorCheats s of
              (Inr _, eff) \<Rightarrow> s\<lparr>timers := timers s - {t}, cheatUpdateTimeout := None,
                                trace := trace s @ eff\<rparr>
            | (Inl _, eff) \<Rightarrow> s\<lparr>timers := timers s - {t}, trace := trace s @ eff\<rparr>)
      else s)"

text \<open>
  What can happen to a session, one event at a time: the runtime calls
  \<^verbatim>\<open>EJS_onGameStart\<close>, which starts a continuation; a run of \<^verbatim>\<open>loadCheatCodes\<close>
  completes with the given backend outcome; a started continuation reaches its scheduling
  step; the browser fires a timer; the component is unmounted.
\<close>

datatype event =
    GameStart
  | Refresh "CheatCode list option outcome"
  | Schedule
  | Fire nat
  | Unmount

fun step :: "session \<Rightarrow> event \<Rightarrow> session" where
  "step s GameStart = s\<lparr>starting := Suc (starting s)\<rparr>"
| "step s (Refresh response) = snd (loadCheatCodes response s)"
| "step s Schedule = (if starting s = 0 then s else schedule (s\<lparr>starting := starting s - 1\<rparr>))"
| "step s (Fire t) = fire t s"
| "step s Unmount = onBeforeUnmount s"

definition run :: "event list \<Rightarrow> session \<Rightarrow> session" where
  "run es s = foldl step s es"

text \<open>
  The timer discipline: a cheat-apply timer still in the browser's table is the one the
  ref holds, and the ref holds only ids the browser has already handed out.
\<close>

definition timer_inv :: "session \<Rightarrow> bool" where
  "timer_inv s =
     (timers s \<subseteq> set_option (cheatUpdateTimeout s) \<and>
      (case cheatUpdateTimeout s of None \<Rightarrow> True | Some t \<Rightarrow> t < next_timer s))"

text \<open>The component's two handlers are on the emitter at most once each, as after one
  \<^verbatim>\<open>onMounted\<close>.\<close>

definition registered_once :: "session \<Rightarrow> bool" where
  "registered_once s =
     (case emitter s of
        None \<Rightarrow> True
      | Some hs \<Rightarrow> count_list hs (''saveSelected'', LoadSaveHandler) \<le> 1 \<and>
                  count_list hs (''stateSelected'', LoadStateHandler) \<le> 1)"

text \<open>A timer id that has been handed out and is not in the table: cancelled or fired.\<close>

definition retired :: "nat \<Rightarrow> session \<Rightarrow> bool" where
  "retired t s = (t < next_timer s \<and> t \<notin> timers s)"


section \<open>A concrete session\<close>

text \<open>A runtime that is up, the two cheats of the NES example, and a player for it.\<close>

definition demo_runtime :: emulator where
  "demo_runtime =
     \<lparr>gameManager = Some \<lparr>resetCheat = Returns, setCheat = Returns\<rparr>,
      updateCheatUI = Returns, getBaseFileName = ''Super Mario Bros''\<rparr>"

definition demo_cheats :: "CheatCode list" where
  "demo_cheats =
     [\<lparr>cheat_id = ''1'', name = ''Infinite Lives'', code = ''SXYIZVSE'',
       description = ''Infinite Lives'', cheat_type = ''game_genie'', romId = ''123''\<rparr>,
      \<lparr>cheat_id = ''2'', name = ''Invincibility'', code = ''AEKZZZIA'',
       description = ''Invincibility'', cheat_type = ''game_genie'', romId = ''123''\<rparr>]"

definition demo_session :: session where
  "demo_session = script_setup (Some demo_runtime) (Some [(''saveSelected'', Foreign 7)]) None 0 True True"

section \<open>Cheat Source Adapter: order and length\<close>


section \<open>Runtime Bootstrap: requested core or default\<close>

lemma find_requested_core:
  "List.find (\<lambda>c. Some c = core) cores = (if core \<in> Some ` set cores then core else None)"
  by (induction cores) auto

text \<open>
  C8. The effective core is the requested core when the platform supports it, and the
  first supported core of the platform otherwise (none when the platform supports no
  core); the result is a value in every case, never an error.
\<close>

theorem EJS_core_requested_or_default:
  "EJS_core supportedCores core =
     (if core \<in> Some ` set supportedCores then core
      else case supportedCores of [] \<Rightarrow> None | d # _ \<Rightarrow> Some d)"
  by (auto simp: EJS_core_def find_requested_core split: option.splits)

theorem EJS_core_requested_or_default_witness:
  "EJS_core [''fceumm'', ''nestopia''] (Some ''nestopia'') = Some ''nestopia'' \<and>
   EJS_core [''fceumm'', ''nestopia''] (Some ''snes9x'') = Some ''fceumm'' \<and>
   EJS_core [''fceumm'', ''nestopia''] None = Some ''fceumm'' \<and>
   EJS_core [] (Some ''snes9x'') = None"
  using EJS_core_requested_or_default [of "[''fceumm'', ''nestopia'']" "Some ''nestopia''"]
    EJS_core_requested_or_default [of "[''fceumm'', ''nestopia'']" "Some ''snes9x''"]
    EJS_core_requested_or_default [of "[''fceumm'', ''nestopia'']" None]
    EJS_core_requested_or_default [of "[]" "Some ''snes9x''"]
  by simp

section \<open>The native cheat-table calls of one apply\<close>

lemma applyCheats_unchecked:
  "applyCheats Returns i (map (\<lambda>(d, c). \<lparr>desc = d, ecode = c, checked = False\<rparr>) xs) =
     (Inr (), map (\<lambda>(j, (d, c)). SetCheat j False c) (enumerate i xs))"
  by (induction xs arbitrary: i) (auto simp: then_do_def call_def)

lemma filter_setCheats:
  "filter is_cheat_table_call (map (\<lambda>(j, (d, c)). SetCheat j False c) xs) =
     map (\<lambda>(j, (d, c)). SetCheat j False c) xs"
  by (induction xs) auto

lemma cheat_update_calls:
  assumes "resetCheat gm = Returns" "setCheat gm = Returns"
  shows "cheat_table_calls (snd (cheat_update em gm s)) =
           ResetCheat # map (\<lambda>(j, (d, c)). SetCheat j False c) (enumerate 0 (EJS_cheats s))"
proof -
  have cheats: "(if length (EJS_cheats s) > 0
                 then map (\<lambda>(d, c). \<lparr>desc = d, ecode = c, checked = False\<rparr>) (EJS_cheats s)
                 else []) = map (\<lambda>(d, c). \<lparr>desc = d, ecode = c, checked = False\<rparr>) (EJS_cheats s)"
    by simp
  show ?thesis
    unfolding cheat_update_def Let_def cheats
    using assms
    by (cases "updateCheatUI em")
       (simp_all add: then_do_def say_def call_def applyCheats_unchecked
          cheat_table_calls_def filter_setCheats)
qed

text \<open>
  C2, as the code has it. When the runtime is up (game manager present, \<^verbatim>\<open>resetCheat\<close>
  and \<^verbatim>\<open>setCheat\<close> functions that return), one apply issues two reset-cheat-table calls,
  the one before and the one after the capability check, and then one
  set-cheat(index, false, code) per buffer entry, in buffer order, with consecutive
  indices from 0; for the two-entry buffer of the example that is reset, reset,
  set-cheat(0, false, "SXYIZVSE"), set-cheat(1, false, "AEKZZZIA").
\<close>

theorem updateEmulatorCheats_calls:
  assumes "EJS_emulator s = Some em" "gameManager em = Some gm"
    "resetCheat gm = Returns" "setCheat gm = Returns"
  shows "cheat_table_calls (snd (updateEmulatorCheats s)) =
           [ResetCheat, ResetCheat] @
           map (\<lambda>(i, (d, c)). SetCheat i False c) (enumerate 0 (EJS_cheats s))"
proof -
  obtain r t where inner: "cheat_update em gm s = (r, t)"
    by (cases "cheat_update em gm s")
  have t: "filter is_cheat_table_call t =
             ResetCheat # map (\<lambda>(j, (d, c)). SetCheat j False c) (enumerate 0 (EJS_cheats s))"
    using cheat_update_calls [OF assms(3,4), of em s] inner by (simp add: cheat_table_calls_def)
  show ?thesis
    using assms t
    by (cases r)
       (simp_all add: updateEmulatorCheats_def inner then_do_def on_error_def say_def call_def
          displayMessage_def cheat_table_calls_def)
qed

lemma demo_buffer:
  "EJS_cheats (snd (loadCheatCodes (Resolved (Some demo_cheats)) demo_session)) =
     [(''Infinite Lives'', ''SXYIZVSE''), (''Invincibility'', ''AEKZZZIA'')]"
  "EJS_emulator (snd (loadCheatCodes (Resolved (Some demo_cheats)) demo_session)) = Some demo_runtime"
  by (simp_all add: loadCheatCodes_def fetchCheatCodes_def getCheatCodes_def Let_def
        formatCheatCodesForEmulatorJS_def demo_cheats_def demo_session_def script_setup_def)

theorem updateEmulatorCheats_calls_witness:
  "EJS_emulator (snd (loadCheatCodes (Resolved (Some demo_cheats)) demo_session)) = Some demo_runtime \<and>
   gameManager demo_runtime = Some \<lparr>resetCheat = Returns, setCheat = Returns\<rparr> \<and>
   cheat_table_calls (snd (updateEmulatorCheats (snd (loadCheatCodes (Resolved (Some demo_cheats)) demo_session)))) =
     [ResetCheat, ResetCheat, SetCheat 0 False ''SXYIZVSE'', SetCheat 1 False ''AEKZZZIA'']"
proof -
  have gm: "gameManager demo_runtime = Some \<lparr>resetCheat = Returns, setCheat = Returns\<rparr>"
    by (simp add: demo_runtime_def)
  have "cheat_table_calls (snd (updateEmulatorCheats (snd (loadCheatCodes (Resolved (Some demo_cheats)) demo_session)))) =
     [ResetCheat, ResetCheat] @ map (\<lambda>(i, (d, c)). SetCheat i False c)
        (enumerate 0 (EJS_cheats (snd (loadCheatCodes (Resolved (Some demo_cheats)) demo_session))))"
    by (rule updateEmulatorCheats_calls [OF demo_buffer(2) gm]) simp_all
  then show ?thesis
    using gm by (simp add: demo_buffer)
qed

theorem updateEmulatorCheats_single_reset_counterexample:
  "cheat_table_calls (snd (updateEmulatorCheats (snd (loadCheatCodes (Resolved (Some demo_cheats)) demo_session)))) \<noteq>
     [ResetCheat, SetCheat 0 False ''SXYIZVSE'', SetCheat 1 False ''AEKZZZIA''] \<and>
   count_list (cheat_table_calls (snd (updateEmulatorCheats (snd (loadCheatCodes (Resolved (Some demo_cheats)) demo_session)))))
     ResetCheat = 2"
  by (simp add: updateEmulatorCheats_def cheat_update_def then_do_def on_error_def say_def call_def
        cheat_table_calls_def demo_buffer demo_runtime_def)

section \<open>The pending cheat-apply timer\<close>

lemma loadCheatCodes_frame:
  "timers (snd (loadCheatCodes r s)) = timers s"
  "cheatUpdateTimeout (snd (loadCheatCodes r s)) = cheatUpdateTimeout s"
  "next_timer (snd (loadCheatCodes r s)) = next_timer s"
  "starting (snd (loadCheatCodes r s)) = starting s"
  by (simp_all add: loadCheatCodes_def Let_def split: prod.splits sum.splits)


lemma timer_inv_step: "timer_inv s \<Longrightarrow> timer_inv (step s e)"
proof (cases e)
  case GameStart
  then show "timer_inv s \<Longrightarrow> ?thesis"
    by (auto simp: timer_inv_def split: option.splits)
next
  case (Refresh r)
  then show "timer_inv s \<Longrightarrow> ?thesis"
    by (auto simp: timer_inv_def loadCheatCodes_frame split: option.splits)
next
  case Schedule
  then show "timer_inv s \<Longrightarrow> ?thesis"
    by (auto simp: timer_inv_def schedule_def Let_def split: option.splits)
next
  case (Fire t)
  then show "timer_inv s \<Longrightarrow> ?thesis"
    by (auto simp: timer_inv_def fire_def split: option.splits prod.splits sum.splits)
next
  case Unmount
  then show "timer_inv s \<Longrightarrow> ?thesis"
    by (auto simp: timer_inv_def onBeforeUnmount_def Let_def split: option.splits)
qed

lemma timer_inv_run: "timer_inv s \<Longrightarrow> timer_inv (run es s)"
  unfolding run_def by (induction es arbitrary: s) (simp_all add: timer_inv_step)

lemma timer_inv_script_setup: "timer_inv (script_setup em emi sv tid pl fs)"
  by (simp add: timer_inv_def script_setup_def)

lemma timer_inv_card:
  assumes "timer_inv s"
  shows "card (timers s) \<le> 1"
proof -
  from assms have sub: "timers s \<subseteq> set_option (cheatUpdateTimeout s)"
    by (simp add: timer_inv_def)
  have "card (set_option (cheatUpdateTimeout s)) \<le> 1"
    by (cases "cheatUpdateTimeout s") simp_all
  moreover have "finite (set_option (cheatUpdateTimeout s))"
    by (cases "cheatUpdateTimeout s") simp_all
  ultimately show ?thesis
    using sub card_mono le_trans by blast
qed

lemma retired_step: "retired t s \<Longrightarrow> retired t (step s e)"
proof (cases e)
  case GameStart
  then show "retired t s \<Longrightarrow> ?thesis" by (simp add: retired_def)
next
  case (Refresh r)
  then show "retired t s \<Longrightarrow> ?thesis" by (simp add: retired_def loadCheatCodes_frame)
next
  case Schedule
  then show "retired t s \<Longrightarrow> ?thesis"
    by (auto simp: retired_def schedule_def Let_def split: option.splits)
next
  case (Fire u)
  then show "retired t s \<Longrightarrow> ?thesis"
    by (auto simp: retired_def fire_def split: option.splits prod.splits sum.splits)
next
  case Unmount
  then show "retired t s \<Longrightarrow> ?thesis"
    by (auto simp: retired_def onBeforeUnmount_def Let_def split: option.splits)
qed

lemma retired_run: "retired t s \<Longrightarrow> retired t (run es s)"
  unfolding run_def by (induction es arbitrary: s) (simp_all add: retired_step)

lemma schedule_retires:
  "timer_inv s \<Longrightarrow> cheatUpdateTimeout s = Some t \<Longrightarrow> 0 < starting s \<Longrightarrow>
     retired t (step s Schedule)"
  by (auto simp: timer_inv_def retired_def schedule_def Let_def)

lemma fire_retired: "retired t s \<Longrightarrow> step s (Fire t) = s"
  by (simp add: retired_def fire_def)

lemma demo_two_starts:
  "cheatUpdateTimeout (run [GameStart, Schedule, GameStart] demo_session) = Some 0"
  "timers (run [GameStart, Schedule, GameStart] demo_session) = {0}"
  "starting (run [GameStart, Schedule, GameStart] demo_session) = 1"
  by (simp_all add: run_def schedule_def Let_def demo_session_def script_setup_def)

text \<open>
  C3. In every state a session reaches from its setup, whatever the events, at most one
  cheat-apply timer is pending, and it is the one the ref holds. When a continuation of
  the game-start hook schedules a new timer while timer \<open>t\<close> is still the ref's, \<open>t\<close> is
  cancelled first: from then on \<open>t\<close> is never pending again, and its firing does nothing,
  so the write sequence of the superseded generation is never executed.
\<close>

theorem at_most_one_pending_timer:
  "let s = run es (script_setup em emi sv tid pl fs) in
     timers s \<subseteq> set_option (cheatUpdateTimeout s) \<and> card (timers s) \<le> 1 \<and>
     (\<forall>t es'. cheatUpdateTimeout s = Some t \<and> 0 < starting s \<longrightarrow>
        t \<notin> timers (run es' (step s Schedule)) \<and>
        step (run es' (step s Schedule)) (Fire t) = run es' (step s Schedule))"
proof -
  define s where "s = run es (script_setup em emi sv tid pl fs)"
  have inv: "timer_inv s"
    unfolding s_def by (rule timer_inv_run [OF timer_inv_script_setup])
  have a: "timers s \<subseteq> set_option (cheatUpdateTimeout s)"
    using inv by (simp add: timer_inv_def)
  have b: "card (timers s) \<le> 1"
    using inv by (rule timer_inv_card)
  have c: "t \<notin> timers (run es' (step s Schedule)) \<and>
        step (run es' (step s Schedule)) (Fire t) = run es' (step s Schedule)"
    if "cheatUpdateTimeout s = Some t" "0 < starting s" for t es'
  proof -
    have "retired t (run es' (step s Schedule))"
      by (rule retired_run [OF schedule_retires [OF inv that]])
    then show ?thesis using fire_retired by (simp add: retired_def)
  qed
  show ?thesis
    unfolding Let_def s_def [symmetric] using a b c by blast
qed

theorem at_most_one_pending_timer_witness:
  "cheatUpdateTimeout (run [GameStart, Schedule, GameStart] demo_session) = Some 0 \<and>
   0 < starting (run [GameStart, Schedule, GameStart] demo_session) \<and>
   card (timers (run [GameStart, Schedule, GameStart] demo_session)) \<le> 1 \<and>
   0 \<notin> timers (run [Fire 1] (step (run [GameStart, Schedule, GameStart] demo_session) Schedule)) \<and>
   step (run [Fire 1] (step (run [GameStart, Schedule, GameStart] demo_session) Schedule)) (Fire 0) =
     run [Fire 1] (step (run [GameStart, Schedule, GameStart] demo_session) Schedule)"
  using at_most_one_pending_timer [of "[GameStart, Schedule, GameStart]" "Some demo_runtime"
      "Some [(''saveSelected'', Foreign 7)]" None 0 True True, folded demo_session_def]
  by (simp add: Let_def demo_two_starts)

section \<open>Unmount and the deferred apply\<close>








section \<open>A failed cheat fetch\<close>

text \<open>
  While the runtime is up, a cheat fetch that the backend rejects is recovered where it
  happens: \<^verbatim>\<open>loadCheatCodes\<close> completes without an exception, the cheat buffer ends up
  empty, the error is logged, exactly one notification is shown (the error notification
  of the fetch), and nothing else of the session changes.
\<close>

lemma loadCheatCodes_recovers_with_runtime:
  "EJS_emulator s = Some em \<Longrightarrow>
     loadCheatCodes Rejected s =
       (Inr (), s\<lparr>EJS_cheats := [],
                  trace := trace s @
                    [ConsoleError ''Failed to get cheat codes for ROM'',
                     ConsoleError ''Error fetching cheat codes:'',
                     Notify ''Failed to fetch cheat codes from server'' 4000 ''msg-error''
                       ''mdi-alert-circle-outline'']\<rparr>) \<and>
     EJS_cheats (snd (loadCheatCodes Rejected s)) = [] \<and>
     length (filter is_notification
               (drop (length (trace s)) (trace (snd (loadCheatCodes Rejected s))))) = 1"
  by (simp add: loadCheatCodes_def fetchCheatCodes_def getCheatCodes_def displayMessage_def
        then_do_def say_def Let_def)

text \<open>
  C6, at the input where the code fails it. The backend rejects the cheat fetch while
  \<^verbatim>\<open>window.EJS_emulator\<close> is still undefined, as at the fetch of \<^verbatim>\<open>onMounted\<close> before the
  runtime has been created. The catch block of \<^verbatim>\<open>fetchCheatCodes\<close> throws in its call of
  \<^verbatim>\<open>displayMessage\<close>, the catch block of \<^verbatim>\<open>loadCheatCodes\<close> logs and throws in the same
  call, so \<^verbatim>\<open>loadCheatCodes\<close> ends in a \<^verbatim>\<open>TypeError\<close>: the buffer is empty and the error
  is logged, but no notification is shown, and \<^verbatim>\<open>onMounted\<close> is aborted before it
  registers the component's handlers on the emitter.
\<close>

theorem loadCheatCodes_throws_before_runtime:
  "loadCheatCodes Rejected (script_setup None emi sv tid pl fs) =
     (Inl TypeError,
      (script_setup None emi sv tid pl fs)
        \<lparr>trace := [ConsoleError ''Failed to get cheat codes for ROM'',
                   ConsoleError ''Error fetching cheat codes:'',
                   ConsoleError ''Error loading cheat codes:'']\<rparr>) \<and>
   filter is_notification (trace (snd (loadCheatCodes Rejected (script_setup None emi sv tid pl fs)))) = [] \<and>
   fst (onMounted Rejected (script_setup None emi sv tid pl fs)) = Inl TypeError \<and>
   emitter (snd (onMounted Rejected (script_setup None emi sv tid pl fs))) = emi"
  by (simp add: onMounted_def loadCheatCodes_def fetchCheatCodes_def getCheatCodes_def
        displayMessage_def then_do_def say_def Let_def script_setup_def)

text \<open>
  C10, at the input where the code fails it. The backend rejects the request while
  \<^verbatim>\<open>window.EJS_emulator\<close> is still undefined, as at the fetch of \<^verbatim>\<open>onMounted\<close> before the
  runtime has been created: the catch block of \<^verbatim>\<open>fetchCheatCodes\<close> logs and calls
  \<^verbatim>\<open>displayMessage\<close>, which throws a \<^verbatim>\<open>TypeError\<close>; the function returns no list and the
  exception reaches its caller.
\<close>

theorem fetchCheatCodes_throws_before_runtime:
  "fetchCheatCodes Rejected (script_setup None emi sv tid pl fs) =
     (Inl TypeError, [ConsoleError ''Failed to get cheat codes for ROM'',
                      ConsoleError ''Error fetching cheat codes:''])"
  by (simp add: fetchCheatCodes_def getCheatCodes_def displayMessage_def then_do_def say_def
        script_setup_def)

lemma fetchCheatCodes_total_with_runtime:
  "EJS_emulator s = Some em \<Longrightarrow> \<exists>cs t. fetchCheatCodes r s = (Inr cs, t)"
  by (cases r)
     (simp_all add: fetchCheatCodes_def getCheatCodes_def displayMessage_def then_do_def say_def)

section \<open>Pulling a save or a state\<close>

text \<open>
  C5, as the code has it. With the runtime up: when the backend's response carries no
  data, the pull of a save or of a state asks the user for a local file and the native
  load is called once, with the content of that file; when the response carries a
  non-empty blob, that blob is handed to the native load, a notification is shown, and
  the user is not asked for a file.
\<close>

theorem pull_loads_blob_or_asks_for_file:
  "EJS_emulator s = Some em \<Longrightarrow> d \<noteq> [] \<Longrightarrow>
     loadSave sv (Resolved None) picked s =
       (Inr (), s\<lparr>saveRef := Some sv,
                  trace := trace s @ [SelectFile, LoadEmulatorJSSave picked]\<rparr>) \<and>
     loadSave sv (Resolved (Some d)) picked s =
       (Inr (), s\<lparr>saveRef := Some sv,
                  trace := trace s @ [LoadEmulatorJSSave d,
                    Notify ''Save loaded from server'' 3000 ''msg-info''
                      ''mdi-cloud-download-outline'']\<rparr>) \<and>
     loadState (Resolved None) picked s =
       (Inr (), s\<lparr>trace := trace s @ [SelectFile, LoadEmulatorJSState picked]\<rparr>) \<and>
     loadState (Resolved (Some d)) picked s =
       (Inr (), s\<lparr>trace := trace s @ [LoadEmulatorJSState d,
                    Notify ''State loaded from server'' 3000 ''msg-info''
                      ''mdi-cloud-download-outline'']\<rparr>)"
  by (simp add: loadSave_def loadState_def displayMessage_def then_do_def say_def Let_def)

theorem pull_loads_blob_or_asks_for_file_witness:
  "EJS_emulator demo_session = Some demo_runtime \<and> [4, 5] \<noteq> ([] :: bytes) \<and>
   trace (snd (loadSave 1 (Resolved None) [1, 2, 3] demo_session)) =
     [SelectFile, LoadEmulatorJSSave [1, 2, 3]] \<and>
   trace (snd (loadState (Resolved (Some [4, 5])) [1, 2, 3] demo_session)) =
     [LoadEmulatorJSState [4, 5],
      Notify ''State loaded from server'' 3000 ''msg-info'' ''mdi-cloud-download-outline'']"
proof -
  have up: "EJS_emulator demo_session = Some demo_runtime"
    by (simp add: demo_session_def script_setup_def)
  have ne: "[4, 5] \<noteq> ([] :: bytes)"
    by simp
  from pull_loads_blob_or_asks_for_file [OF up ne, of 1 "[1, 2, 3]"] up show ?thesis
    by (simp add: demo_session_def script_setup_def)
qed

theorem pull_empty_blob_counterexample:
  "trace (snd (loadSave 1 (Resolved (Some [])) [1, 2, 3] demo_session)) =
     [LoadEmulatorJSSave [],
      Notify ''Save loaded from server'' 3000 ''msg-info'' ''mdi-cloud-download-outline''] \<and>
   trace (snd (loadState (Resolved (Some [])) [1, 2, 3] demo_session)) =
     [LoadEmulatorJSState [],
      Notify ''State loaded from server'' 3000 ''msg-info'' ''mdi-cloud-download-outline'']"
  by (simp add: loadSave_def loadState_def displayMessage_def then_do_def say_def Let_def
        demo_session_def script_setup_def)

section \<open>Pushing a save or a state\<close>

text \<open>
  C7, as the code has it. With the runtime up, the hook for a saved state uploads the
  blob and then puts the raw state blob into the runtime's own state storage under the
  runtime's base file name followed by \<^verbatim>\<open>.state\<close>, whether the upload gave a record or
  null, and completes with one notification. The hook for a saved save file uploads the
  blob, updates the store and notifies; it writes nothing into the runtime's storage.
\<close>

theorem state_push_writes_local_copy:
  "EJS_emulator s = Some em \<Longrightarrow>
     EJS_onSaveState stateFile screenshotFile uploaded s =
       (Inr (), s\<lparr>trace := trace s @
          [SaveState stateFile screenshotFile,
           StoragePut (getBaseFileName em @ ''.state'') stateFile,
           RomsStoreUpdate,
           (case uploaded of
              Some _ \<Rightarrow> Notify ''State synced with server'' 4000 ''msg-info'' ''mdi-cloud-sync''
            | None \<Rightarrow> Notify ''Error syncing state with server'' 4000 ''msg-error''
                        ''mdi-sync-alert'')]\<rparr>) \<and>
     EJS_onSaveSave saveFile screenshotFile uploaded s =
       (Inr (), s\<lparr>trace := trace s @
          [SaveSave saveFile screenshotFile,
           RomsStoreUpdate,
           (case uploaded of
              Some _ \<Rightarrow> Notify ''Save synced with server'' 4000 ''msg-info'' ''mdi-cloud-sync''
            | None \<Rightarrow> Notify ''Error syncing save with server'' 4000 ''msg-error''
                        ''mdi-sync-alert'')]\<rparr>)"
  by (cases uploaded)
     (simp_all add: EJS_onSaveState_def EJS_onSaveSave_def displayMessage_def then_do_def say_def)

theorem state_push_writes_local_copy_witness:
  "EJS_emulator demo_session = Some demo_runtime \<and>
   filter is_storage_put (trace (snd (EJS_onSaveState [1, 2] [9] None demo_session))) =
     [StoragePut ''Super Mario Bros.state'' [1, 2]] \<and>
   filter is_storage_put (trace (snd (EJS_onSaveState [1, 2] [9] (Some 4) demo_session))) =
     [StoragePut ''Super Mario Bros.state'' [1, 2]]"
proof -
  have up: "EJS_emulator demo_session = Some demo_runtime"
    by (simp add: demo_session_def script_setup_def)
  from state_push_writes_local_copy [OF up, of "[1, 2]" "[9]" None]
    state_push_writes_local_copy [OF up, of "[1, 2]" "[9]" "Some 4"]
    up show ?thesis
    by (simp add: demo_session_def script_setup_def demo_runtime_def)
qed

theorem save_push_no_local_copy_counterexample:
  "trace (snd (EJS_onSaveSave [1, 2] [9] (Some 4) demo_session)) =
     [SaveSave [1, 2] [9], RomsStoreUpdate,
      Notify ''Save synced with server'' 4000 ''msg-info'' ''mdi-cloud-sync''] \<and>
   filter is_storage_put (trace (snd (EJS_onSaveSave [1, 2] [9] (Some 4) demo_session))) = []"
  by (simp add: EJS_onSaveSave_def displayMessage_def then_do_def say_def
        demo_session_def script_setup_def)

section \<open>Teardown\<close>

lemma remove1_once: "count_list xs x \<le> 1 \<Longrightarrow> x \<notin> set (remove1 x xs)"
  by (induction xs) (auto simp: count_list_0_iff split: if_splits)

lemma registered_once_removed:
  assumes "count_list hs a \<le> 1" "count_list hs b \<le> 1" "a \<noteq> b"
  shows "a \<notin> set (remove1 b (remove1 a hs))" "b \<notin> set (remove1 b (remove1 a hs))"
proof -
  have "a \<notin> set (remove1 a hs)"
    using assms(1) by (rule remove1_once)
  then show "a \<notin> set (remove1 b (remove1 a hs))"
    using notin_set_remove1 by fast
  have "count_list (remove1 a hs) b = count_list hs b"
    using assms(3) by (induction hs) auto
  then have "count_list (remove1 a hs) b \<le> 1"
    using assms(2) by simp
  then show "b \<notin> set (remove1 b (remove1 a hs))"
    by (rule remove1_once)
qed

lemma demo_mounted:
  "snd (onMounted (Resolved (Some demo_cheats)) demo_session) =
     demo_session\<lparr>EJS_cheats := [(''Infinite Lives'', ''SXYIZVSE''), (''Invincibility'', ''AEKZZZIA'')],
       emitter := Some [(''saveSelected'', Foreign 7), (''saveSelected'', LoadSaveHandler),
                        (''stateSelected'', LoadStateHandler)],
       trace := [ConsoleLog ''Fetched cheat codes:'',
                 ConsoleLog ''Formatting cheat codes for EmulatorJS:'',
                 ConsoleLog ''Cheat codes loaded:'']\<rparr>"
  by (simp add: onMounted_def loadCheatCodes_def fetchCheatCodes_def getCheatCodes_def Let_def
        formatCheatCodesForEmulatorJS_def demo_cheats_def demo_session_def script_setup_def)

text \<open>
  C9, as the code has it. Teardown cancels the pending cheat-apply timer, if any, and
  clears the ref; it takes the component's two handlers (for \<^verbatim>\<open>saveSelected\<close> and
  \<^verbatim>\<open>stateSelected\<close>) off the emitter; it leaves the five global hooks of the runtime as
  they are; it clears the playing and fullscreen flags. Run a second time it changes
  nothing: the state after two teardowns is the state after one.
\<close>

theorem onBeforeUnmount_effect_and_idempotent:
  "registered_once s \<Longrightarrow>
     (let u = onBeforeUnmount s in
        cheatUpdateTimeout u = None \<and>
        (\<forall>t. cheatUpdateTimeout s = Some t \<longrightarrow> t \<notin> timers u) \<and>
        (case emitter u of
           None \<Rightarrow> True
         | Some hs \<Rightarrow> (''saveSelected'', LoadSaveHandler) \<notin> set hs \<and>
                     (''stateSelected'', LoadStateHandler) \<notin> set hs) \<and>
        hooks u = hooks s \<and>
        fullScreen u = False \<and> playing u = False \<and>
        onBeforeUnmount u = u)"
proof -
  assume once: "registered_once s"
  define u where "u = onBeforeUnmount s"
  have ref: "cheatUpdateTimeout u = None"
    by (simp add: u_def onBeforeUnmount_def Let_def split: option.splits)
  have tm: "t \<notin> timers u" if "cheatUpdateTimeout s = Some t" for t
    using that by (simp add: u_def onBeforeUnmount_def Let_def)
  have hk: "hooks u = hooks s"
    by (simp add: u_def onBeforeUnmount_def Let_def split: option.splits)
  have fl: "fullScreen u = False" "playing u = False"
    by (simp_all add: u_def onBeforeUnmount_def Let_def split: option.splits)
  have em: "emitter u = map_option (\<lambda>hs. remove1 (''stateSelected'', LoadStateHandler)
                         (remove1 (''saveSelected'', LoadSaveHandler) hs)) (emitter s)"
    by (simp add: u_def onBeforeUnmount_def Let_def split: option.splits)
  have gone: "(''saveSelected'', LoadSaveHandler) \<notin> set hs \<and>
              (''stateSelected'', LoadStateHandler) \<notin> set hs"
    if "emitter u = Some hs" for hs
  proof -
    from that em obtain hs0 where hs0: "emitter s = Some hs0"
      and hs: "hs = remove1 (''stateSelected'', LoadStateHandler)
                     (remove1 (''saveSelected'', LoadSaveHandler) hs0)"
      by (cases "emitter s") auto
    from once hs0 have c: "count_list hs0 (''saveSelected'', LoadSaveHandler) \<le> 1"
      "count_list hs0 (''stateSelected'', LoadStateHandler) \<le> 1"
      by (simp_all add: registered_once_def)
    show ?thesis
      unfolding hs using registered_once_removed [OF c] by simp
  qed
  have em2: "map_option (\<lambda>hs. remove1 (''stateSelected'', LoadStateHandler)
                         (remove1 (''saveSelected'', LoadSaveHandler) hs)) (emitter u) = emitter u"
  proof (cases "emitter u")
    case None
    then show ?thesis by simp
  next
    case (Some hs)
    with gone [OF Some] show ?thesis by (simp add: remove1_idem)
  qed
  have idem: "onBeforeUnmount u = u"
    using ref fl em2 by (simp add: onBeforeUnmount_def [of u] Let_def)
  have emc: "(case emitter u of
           None \<Rightarrow> True
         | Some hs \<Rightarrow> (''saveSelected'', LoadSaveHandler) \<notin> set hs \<and>
                     (''stateSelected'', LoadStateHandler) \<notin> set hs)"
    using gone by (cases "emitter u") simp_all
  show ?thesis
    unfolding Let_def u_def [symmetric] using ref tm emc hk fl idem by blast
qed

theorem onBeforeUnmount_effect_and_idempotent_witness:
  "registered_once (schedule (snd (onMounted (Resolved (Some demo_cheats)) demo_session))) \<and>
   cheatUpdateTimeout (schedule (snd (onMounted (Resolved (Some demo_cheats)) demo_session))) = Some 0 \<and>
   0 \<notin> timers (onBeforeUnmount (schedule (snd (onMounted (Resolved (Some demo_cheats)) demo_session)))) \<and>
   emitter (onBeforeUnmount (schedule (snd (onMounted (Resolved (Some demo_cheats)) demo_session)))) =
     Some [(''saveSelected'', Foreign 7)] \<and>
   playing (onBeforeUnmount (schedule (snd (onMounted (Resolved (Some demo_cheats)) demo_session)))) = False \<and>
   onBeforeUnmount (onBeforeUnmount (schedule (snd (onMounted (Resolved (Some demo_cheats)) demo_session)))) =
     onBeforeUnmount (schedule (snd (onMounted (Resolved (Some demo_cheats)) demo_session)))"
proof -
  have once: "registered_once (schedule (snd (onMounted (Resolved (Some demo_cheats)) demo_session)))"
    unfolding demo_mounted
    by (simp add: registered_once_def schedule_def Let_def demo_session_def script_setup_def)
  have ref: "cheatUpdateTimeout (schedule (snd (onMounted (Resolved (Some demo_cheats)) demo_session))) = Some 0"
    unfolding demo_mounted
    by (simp add: schedule_def Let_def demo_session_def script_setup_def)
  have em: "emitter (onBeforeUnmount (schedule (snd (onMounted (Resolved (Some demo_cheats)) demo_session)))) =
     Some [(''saveSelected'', Foreign 7)]"
    unfolding demo_mounted
    by (simp add: onBeforeUnmount_def schedule_def Let_def demo_session_def script_setup_def)
  from onBeforeUnmount_effect_and_idempotent [OF once] once ref em show ?thesis
    by (simp add: Let_def)
qed

theorem onBeforeUnmount_keeps_hooks_counterexample:
  "hooks (snd (onMounted (Resolved (Some demo_cheats)) demo_session)) =
     {OnGameStart, OnSaveState, OnLoadState, OnSaveSave, OnLoadSave} \<and>
   hooks (onBeforeUnmount (snd (onMounted (Resolved (Some demo_cheats)) demo_session))) =
     {OnGameStart, OnSaveState, OnLoadState, OnSaveSave, OnLoadSave} \<and>
   OnLoadSave \<in> hooks (onBeforeUnmount (snd (onMounted (Resolved (Some demo_cheats)) demo_session)))"
  unfolding demo_mounted
  by (simp add: onBeforeUnmount_def Let_def demo_session_def script_setup_def)

end
